theory Spec2Isabelle
  imports Main "HOL-Library.Sublist"
begin

section \<open>Python values used by cmd_fts_index.py\<close>

text \<open>
  Object identities (the memoised progress tracker, its lock, the listener closure) are
  references into a store. Exceptions are values: every \<^verbatim>\<open>raise\<close> of the source is a
  \<open>Raises\<close> result. An exception object carries its class, the text \<^verbatim>\<open>str(e)\<close>
  yields, and the value of \<^verbatim>\<open>getattr(e, 'suppress_traceback', False)\<close>.
  \<^verbatim>\<open>SystemExit\<close> carries the argument it was raised with. The translation function
  \<^verbatim>\<open>_\<close> is the identity (no message catalogue is loaded). The message texts of the
  errors the interpreter itself raises (\<^verbatim>\<open>ValueError\<close>, \<^verbatim>\<open>TypeError\<close>, \<^verbatim>\<open>AttributeError\<close>,
  \<^verbatim>\<open>EOFError\<close>) are abridged.
\<close>

type_synonym ref = nat

datatype exc_class =
    Exception_class
  | NotImplementedError_class
  | ValueError_class
  | TypeError_class
  | AttributeError_class
  | EOFError_class
  | KeyboardInterrupt_class
  | Other_class string bool

text \<open>\<^verbatim>\<open>isinstance(e, Exception)\<close>: what an \<^verbatim>\<open>except Exception\<close> clause catches.
  \<open>Other_class name b\<close> is any further class; \<open>b\<close> says whether it derives from
  \<^verbatim>\<open>Exception\<close>.\<close>

fun is_Exception :: "exc_class \<Rightarrow> bool" where
  "is_Exception KeyboardInterrupt_class = False"
| "is_Exception (Other_class name b) = b"
| "is_Exception c = True"

datatype exit_arg = Exit_code int | Exit_message string

datatype exc =
    Raised exc_class string bool
  | SystemExit exit_arg

text \<open>The process exit status Python derives from an uncaught \<^verbatim>\<open>SystemExit\<close>: an integer
  argument is the status, any string argument is printed and the status is 1.\<close>

fun exit_status :: "exit_arg \<Rightarrow> int" where
  "exit_status (Exit_code n) = n"
| "exit_status (Exit_message m) = 1"

text \<open>The outcome of a call: a value, an exception, or a main thread still blocked in
  \<^verbatim>\<open>q.get()\<close> when the observed schedule ends.\<close>

datatype 'a res = Returns 'a | Raises exc | Blocks

section \<open>The process state\<close>

text \<open>Modelled from the spec: the class \<^verbatim>\<open>IndexingProgress\<close> is defined in
  \<^verbatim>\<open>calibre.db.utils\<close>, which is not part of this file. The record, its constructor
  \<open>IndexingProgress_init\<close> and its methods \<open>ip_update\<close> and \<open>ip_reset\<close> follow the spec's
  ProgressState: the two counters, the unset sentinel \<open>(-1, -1)\<close> at construction and after
  \<^verbatim>\<open>reset()\<close>, and a record of the remaining counts seen by \<^verbatim>\<open>update\<close>, which \<^verbatim>\<open>reset()\<close>
  clears. The time stamps of the samples and the estimate \<^verbatim>\<open>time_left\<close> computes from them
  are not modelled. The \<^verbatim>\<open>lock\<close> attribute is the one \<^verbatim>\<open>indexing_progress\<close> attaches.\<close>

record IndexingProgress =
  ip_left :: int
  ip_total :: int
  rate_samples :: "int list"
  lock :: ref

definition IndexingProgress_init :: "ref \<Rightarrow> IndexingProgress" where
  "IndexingProgress_init k = \<lparr>ip_left = -1, ip_total = -1, rate_samples = [], lock = k\<rparr>"

definition ip_update :: "int \<Rightarrow> int \<Rightarrow> IndexingProgress \<Rightarrow> IndexingProgress" where
  "ip_update l t p = p\<lparr>ip_left := l, ip_total := t, rate_samples := rate_samples p @ [l]\<rparr>"

definition ip_reset :: "IndexingProgress \<Rightarrow> IndexingProgress" where
  "ip_reset p = p\<lparr>ip_left := -1, ip_total := -1, rate_samples := []\<rparr>"

text \<open>Modelled from the spec: \<^verbatim>\<open>EventType\<close> is declared in \<^verbatim>\<open>calibre.db.listeners\<close>. Only
  the member this file names is distinguished.\<close>

datatype EventType = indexing_progress_changed | other_event nat

text \<open>What the program prints or asks, as structured lines.\<close>

datatype printed =
    Help
  | Msg string
  | Files_indexed int int
  | Progress_line int int
  | Newline
  | Prompt string

text \<open>What the terminal answers to one \<^verbatim>\<open>input()\<close> call: a line, or Ctrl-C. An
  exhausted input is end of file.\<close>

datatype input_ev = Line string | Ctrl_C

text \<open>Every call the program makes on a collaborator, in program order.\<close>

datatype call =
    Construct ref ref
  | Acquire ref
  | Release ref
  | Ip_update ref int int
  | Ip_reset ref
  | Ip_time_left ref
  | Db_is_fts_enabled
  | Db_enable_fts bool
  | Db_fts_indexing_progress
  | Db_reindex_fts
  | Db_reindex_fts_book int "string list"
  | Db_add_listener ref
  | Db_set_fts_speed bool
  | Q_put int int
  | Q_get int int
  | Print printed
  | Set_excepthook

text \<open>
  The database handle is a collaborator whose code is not in this file: its state is a
  type parameter \<open>'d\<close> and its methods are the fields of \<open>db_api\<close>, named as in the
  source. They are taken as total functions of the database state.
\<close>

record 'd db_api =
  is_fts_enabled :: "'d \<Rightarrow> bool"
  fts_indexing_progress :: "'d \<Rightarrow> int \<times> int"
  enable_fts :: "bool \<Rightarrow> 'd \<Rightarrow> 'd"
  reindex_fts :: "'d \<Rightarrow> 'd"
  reindex_fts_book :: "int \<Rightarrow> string list \<Rightarrow> 'd \<Rightarrow> 'd"
  set_fts_speed :: "bool \<Rightarrow> 'd \<Rightarrow> 'd"

record 'd world =
  db :: 'd
  cache :: "ref option"
  objs :: "ref \<rightharpoonup> IndexingProgress"
  next_ref :: ref
  trace :: "call list"
  stdin :: "input_ev list"
  excepthook_silenced :: bool

definition log :: "call \<Rightarrow> 'd world \<Rightarrow> 'd world" where
  "log c w = w\<lparr>trace := trace w @ [c]\<rparr>"

definition db_is_fts_enabled :: "'d db_api \<Rightarrow> 'd world \<Rightarrow> bool \<times> 'd world" where
  "db_is_fts_enabled D w = (is_fts_enabled D (db w), log Db_is_fts_enabled w)"

definition db_fts_indexing_progress :: "'d db_api \<Rightarrow> 'd world \<Rightarrow> (int \<times> int) \<times> 'd world" where
  "db_fts_indexing_progress D w = (fts_indexing_progress D (db w), log Db_fts_indexing_progress w)"

definition db_enable_fts :: "'d db_api \<Rightarrow> bool \<Rightarrow> 'd world \<Rightarrow> 'd world" where
  "db_enable_fts D b w = log (Db_enable_fts b) (w\<lparr>db := enable_fts D b (db w)\<rparr>)"

definition db_reindex_fts :: "'d db_api \<Rightarrow> 'd world \<Rightarrow> 'd world" where
  "db_reindex_fts D w = log Db_reindex_fts (w\<lparr>db := reindex_fts D (db w)\<rparr>)"

definition db_reindex_fts_book :: "'d db_api \<Rightarrow> int \<times> string list \<Rightarrow> 'd world \<Rightarrow> 'd world" where
  "db_reindex_fts_book D item w =
     log (Db_reindex_fts_book (fst item) (snd item))
       (w\<lparr>db := reindex_fts_book D (fst item) (snd item) (db w)\<rparr>)"

definition db_set_fts_speed :: "'d db_api \<Rightarrow> bool \<Rightarrow> 'd world \<Rightarrow> 'd world" where
  "db_set_fts_speed D slow w = log (Db_set_fts_speed slow) (w\<lparr>db := set_fts_speed D slow (db w)\<rparr>)"

text \<open>\<^verbatim>\<open>db.add_listener(listen)\<close>: the call is recorded. The registry of listeners belongs to
  the database layer, which is not part of this file: how long it keeps a callback is not
  described here.\<close>

definition db_add_listener :: "ref \<Rightarrow> 'd world \<Rightarrow> 'd world" where
  "db_add_listener cb w = log (Db_add_listener cb) w"

section \<open>The memoised progress tracker (lines 10-34)\<close>

text \<open>
  \<^verbatim>\<open>@lru_cache\<close> on a function without arguments. A call first looks the stored object
  up and returns it when there is one. Otherwise it runs the body, which allocates the
  tracker and a fresh \<^verbatim>\<open>Lock()\<close>, and only after the body has returned does it store the
  result, unless another call has stored one in the meantime: then the stored object is
  kept and the call still returns the object it has built itself. These are three steps,
  \<open>cache\<close> (the look-up), \<open>indexing_progress_body\<close> and \<open>cache_store\<close>, between which
  the interpreter may run another thread. \<open>indexing_progress\<close> is a call that no other
  call overlaps: the three steps in a row.
\<close>

definition indexing_progress_body :: "'d world \<Rightarrow> ref \<times> 'd world" where
  "indexing_progress_body w =
     (let r = next_ref w; k = Suc (next_ref w)
      in (r, log (Construct r k)
               (w\<lparr>objs := (objs w)(r \<mapsto> IndexingProgress_init k),
                  next_ref := Suc (Suc (next_ref w))\<rparr>)))"

definition cache_store :: "ref \<Rightarrow> 'd world \<Rightarrow> 'd world" where
  "cache_store r w = (case cache w of Some r' \<Rightarrow> w | None \<Rightarrow> w\<lparr>cache := Some r\<rparr>)"

definition indexing_progress :: "'d world \<Rightarrow> ref \<times> 'd world" where
  "indexing_progress w =
     (case cache w of
        Some r \<Rightarrow> (r, w)
      | None \<Rightarrow> (let (r, w1) = indexing_progress_body w in (r, cache_store r w1)))"

definition lock_of :: "'d world \<Rightarrow> ref \<Rightarrow> ref" where
  "lock_of w r = (case objs w r of Some p \<Rightarrow> lock p | None \<Rightarrow> r)"

definition modify_obj :: "ref \<Rightarrow> (IndexingProgress \<Rightarrow> IndexingProgress) \<Rightarrow> 'd world \<Rightarrow> 'd world" where
  "modify_obj r f w = (case objs w r of Some p \<Rightarrow> w\<lparr>objs := (objs w)(r \<mapsto> f p)\<rparr> | None \<Rightarrow> w)"

text \<open>The three blocks \<^verbatim>\<open>with ip.lock: ...\<close>, for the tracker \<open>ip\<close> the function has
  obtained: the lock attached to \<open>ip\<close> is acquired, the method runs, the lock is released.
  A block runs as one step.\<close>

definition locked_update :: "ref \<Rightarrow> int \<Rightarrow> int \<Rightarrow> 'd world \<Rightarrow> 'd world" where
  "locked_update ip l t w =
     (let w2 = log (Acquire (lock_of w ip)) w;
          w3 = log (Ip_update ip l t) (modify_obj ip (ip_update l t) w2)
      in log (Release (lock_of w3 ip)) w3)"

definition locked_reset :: "ref \<Rightarrow> 'd world \<Rightarrow> 'd world" where
  "locked_reset ip w =
     (let w2 = log (Acquire (lock_of w ip)) w;
          w3 = log (Ip_reset ip) (modify_obj ip ip_reset w2)
      in log (Release (lock_of w3 ip)) w3)"

definition locked_time_left :: "ref \<Rightarrow> 'd world \<Rightarrow> 'd world" where
  "locked_time_left ip w =
     (let w2 = log (Acquire (lock_of w ip)) w;
          w3 = log (Ip_time_left ip) w2
      in log (Release (lock_of w3 ip)) w3)"

definition update_indexing_progress :: "int \<Rightarrow> int \<Rightarrow> 'd world \<Rightarrow> 'd world" where
  "update_indexing_progress l t w =
     (let (ip, w1) = indexing_progress w in locked_update ip l t w1)"

definition reset_indexing_progress :: "'d world \<Rightarrow> 'd world" where
  "reset_indexing_progress w =
     (let (ip, w1) = indexing_progress w in locked_reset ip w1)"

definition indexing_progress_time_left :: "'d world \<Rightarrow> 'd world" where
  "indexing_progress_time_left w =
     (let (ip, w1) = indexing_progress w in locked_time_left ip w1)"

section \<open>implementation (lines 37-68)\<close>

text \<open>
  The result dictionary \<^verbatim>\<open>{'enabled': .., 'left': .., 'total': ..}\<close> is a record; a
  \<^verbatim>\<open>return\<close> without a value and falling off the end of the function are \<open>None\<close>.
  \<open>adata\<close> is \<open>None\<close> for the default argument, otherwise the dictionary, of which only
  the key \<^verbatim>\<open>'items'\<close> is read (\<open>None\<close> when the key is absent). An item is the tuple
  \<^verbatim>\<open>(book_id, fmt, ...)\<close>. The parameter \<^verbatim>\<open>notify_changes\<close> is never used by the source and
  is left out.
\<close>

record status =
  enabled :: bool
  left :: int
  total' :: int

type_synonym item = "int \<times> string list"
type_synonym adata = "item list option"

definition not_enabled_error :: exc where
  "not_enabled_error = Raised Exception_class ''Full text indexing is not enabled on this library'' True"

definition progress_status :: "'d db_api \<Rightarrow> 'd world \<Rightarrow> status option res \<times> 'd world" where
  "progress_status D w =
     (let (lt, w1) = db_fts_indexing_progress D w
      in (Returns (Some \<lparr>enabled = True, left = fst lt, total' = snd lt\<rparr>), w1))"

definition implementation ::
  "'d db_api \<Rightarrow> string \<Rightarrow> adata option \<Rightarrow> 'd world \<Rightarrow> status option res \<times> 'd world" where
  "implementation D action adata w =
     (if action = ''status'' then
        (let (en, w1) = db_is_fts_enabled D w
         in if en then progress_status D w1
            else (Returns (Some \<lparr>enabled = False, left = -1, total' = -1\<rparr>), w1))
      else if action = ''enable'' then
        (let (en, w1) = db_is_fts_enabled D w;
             w2 = (if \<not> en then db_enable_fts D True w1 else w1)
         in progress_status D w2)
      else if action = ''disable'' then
        (let (en, w1) = db_is_fts_enabled D w
         in (Returns None,
             if en then db_enable_fts D False (reset_indexing_progress w1) else w1))
      else if action = ''reindex'' then
        (let (en, w1) = db_is_fts_enabled D w
         in if \<not> en then (Raises not_enabled_error, w1)
            else (case adata of
                    None \<Rightarrow>
                      (Raises (Raised AttributeError_class
                                 ''NoneType object has no attribute get'' False), w1)
                  | Some items \<Rightarrow>
                      (let w2 = (case items of
                                   None \<Rightarrow> db_reindex_fts D w1
                                 | Some [] \<Rightarrow> db_reindex_fts D w1
                                 | Some its \<Rightarrow> fold (db_reindex_fts_book D) its w1)
                       in progress_status D w2)))
      else (Returns None, w))"

section \<open>The completion waiter (lines 105-132)\<close>

text \<open>
  The listener runs on the database's notification thread, the loop on the main thread.
  What the two threads do is interleaved by a schedule, a list of steps: \<open>Notify\<close> is
  one call of \<^verbatim>\<open>listen\<close> by the notification thread, \<open>Get\<close> is the main thread being
  given the chance to complete \<^verbatim>\<open>q.get()\<close> and run the loop body (it stays blocked
  when the queue is empty), \<open>Interrupt\<close> is a \<^verbatim>\<open>KeyboardInterrupt\<close> delivered to the
  blocked main thread. When the schedule is exhausted and the loop has not returned, the
  result is \<open>Blocks\<close>. The queue is the local \<^verbatim>\<open>Queue()\<close>: a FIFO list. The statements
  before the loop run as one step.
\<close>

datatype sched_step = Notify EventType string "int \<times> int" | Get | Interrupt

type_synonym queue = "(int \<times> int) list"

definition listen :: "EventType \<Rightarrow> string \<Rightarrow> int \<times> int \<Rightarrow> queue \<times> 'd world \<Rightarrow> queue \<times> 'd world" where
  "listen event_type library_id event_data qw =
     (if event_type = indexing_progress_changed then
        (fst qw @ [event_data],
         log (Q_put (fst event_data) (snd event_data))
           (update_indexing_progress (fst event_data) (snd event_data) (snd qw)))
      else qw)"

definition show_progress :: "int \<Rightarrow> int \<Rightarrow> 'd world \<Rightarrow> 'd world" where
  "show_progress l t w = log (Print (Progress_line (t - l) t)) (indexing_progress_time_left w)"

definition keyboard_interrupt :: exc where
  "keyboard_interrupt = Raised KeyboardInterrupt_class [] False"

fun consumer_loop :: "sched_step list \<Rightarrow> queue \<Rightarrow> 'd world \<Rightarrow> unit res \<times> queue \<times> 'd world" where
  "consumer_loop [] q w = (Blocks, q, w)"
| "consumer_loop (Notify et lib d # sch) q w =
     (let qw = listen et lib d (q, w) in consumer_loop sch (fst qw) (snd qw))"
| "consumer_loop (Interrupt # sch) q w = (Raises keyboard_interrupt, q, w)"
| "consumer_loop (Get # sch) [] w = consumer_loop sch [] w"
| "consumer_loop (Get # sch) ((l, t) # q) w =
     (if l < 1 then (Returns (), q, log (Print Newline) (log (Q_get l t) w))
      else consumer_loop sch q (show_progress l t (log (Q_get l t) w)))"

definition local_wait_for_completion ::
  "'d db_api \<Rightarrow> string \<Rightarrow> sched_step list \<Rightarrow> 'd world \<Rightarrow> unit res \<times> queue \<times> 'd world" where
  "local_wait_for_completion D indexing_speed sch w =
     (let cb = next_ref w;
          w1 = db_add_listener cb (w\<lparr>next_ref := Suc (next_ref w)\<rparr>);
          w2 = (if indexing_speed \<noteq> [] then db_set_fts_speed D (indexing_speed = ''slow'') w1
                else w1);
          (lt, w3) = db_fts_indexing_progress D w2
      in if fst lt < 1 then (Returns (), [], w3)
         else consumer_loop sch [] (show_progress (fst lt) (snd lt) w3))"

section \<open>String helpers and builtins\<close>

text \<open>
  \<^verbatim>\<open>x.split(sep, 1)\<close> gives one part when the separator is absent, otherwise the text
  before the first separator and the text after it. \<^verbatim>\<open>x.split(sep)\<close> splits at every
  separator and never gives an empty list. \<^verbatim>\<open>x.strip(c)\<close> removes the character from
  both ends. Python's \<^verbatim>\<open>int\<close> and \<^verbatim>\<open>str.upper\<close> are builtins of the interpreter, taken
  as parameters; \<open>ascii_builtins\<close> is their restriction to ASCII decimal numerals and
  ASCII letters, used to evaluate examples.
\<close>

definition split1 :: "char \<Rightarrow> string \<Rightarrow> string \<times> string option" where
  "split1 c s =
     (if c \<in> set s then (takeWhile (\<lambda>x. x \<noteq> c) s, Some (tl (dropWhile (\<lambda>x. x \<noteq> c) s)))
      else (s, None))"

fun split :: "char \<Rightarrow> string \<Rightarrow> string list" where
  "split c [] = [[]]"
| "split c (x # xs) =
     (if x = c then [] # split c xs
      else (case split c xs of [] \<Rightarrow> [[x]] | p # ps \<Rightarrow> (x # p) # ps))"

definition strip :: "char \<Rightarrow> string \<Rightarrow> string" where
  "strip c s = rev (dropWhile (\<lambda>x. x = c) (rev (dropWhile (\<lambda>x. x = c) s)))"

record builtins =
  py_int :: "string \<Rightarrow> int option"
  py_upper :: "string \<Rightarrow> string"

definition digit_val :: "char \<Rightarrow> nat option" where
  "digit_val c = (let n = (of_char c :: nat) in if 48 \<le> n \<and> n \<le> 57 then Some (n - 48) else None)"

fun ascii_digits :: "string \<Rightarrow> nat \<Rightarrow> nat option" where
  "ascii_digits [] acc = Some acc"
| "ascii_digits (c # cs) acc =
     (case digit_val c of None \<Rightarrow> None | Some d \<Rightarrow> ascii_digits cs (10 * acc + d))"

definition ascii_int :: "string \<Rightarrow> int option" where
  "ascii_int s =
     (case s of
        [] \<Rightarrow> None
      | c # cs \<Rightarrow>
          if c = CHR ''-'' then (if cs = [] then None else map_option (\<lambda>n. - int n) (ascii_digits cs 0))
          else if c = CHR ''+'' then (if cs = [] then None else map_option int (ascii_digits cs 0))
          else map_option int (ascii_digits s 0))"

definition ascii_upper_char :: "char \<Rightarrow> char" where
  "ascii_upper_char c =
     (case map_of (zip ''abcdefghijklmnopqrstuvwxyz'' ''ABCDEFGHIJKLMNOPQRSTUVWXYZ'') c of
        Some u \<Rightarrow> u
      | None \<Rightarrow> c)"

definition ascii_builtins :: builtins where
  "ascii_builtins = \<lparr>py_int = ascii_int, py_upper = map ascii_upper_char\<rparr>"

section \<open>main (lines 135-223)\<close>

text \<open>
  \<open>dbctx\<close> is the caller's context object: \<^verbatim>\<open>dbctx.run\<close> submits the job (a direct call
  of \<open>implementation\<close> locally, an opaque remote call otherwise) and is a parameter;
  \<^verbatim>\<open>dbctx.option_parser.print_help()\<close> prints \<open>Help\<close>; \<^verbatim>\<open>dbctx.db.new_api\<close> is the
  database handle of the process state.
\<close>

record 'd dbctx =
  is_remote :: bool
  run :: "string \<Rightarrow> string \<Rightarrow> adata \<Rightarrow> 'd world \<Rightarrow> status option res \<times> 'd world"

record opts =
  wait_for_completion :: bool
  indexing_speed :: string

text \<open>Modelled from the spec: the local execution mode of \<^verbatim>\<open>dbctx.run\<close>, which lives in
  the calling framework, is the direct in-process call of \<open>implementation\<close>.\<close>

definition local_dbctx :: "'d db_api \<Rightarrow> 'd dbctx" where
  "local_dbctx D = \<lparr>is_remote = False, run = (\<lambda>name which data. implementation D which (Some data))\<rparr>"

definition input :: "string \<Rightarrow> 'd world \<Rightarrow> string res \<times> 'd world" where
  "input prompt w =
     (let w1 = log (Print (Prompt prompt)) w
      in case stdin w1 of
           [] \<Rightarrow> (Raises (Raised EOFError_class ''EOF when reading a line'' False), w1)
         | Line s # rest \<Rightarrow> (Returns s, w1\<lparr>stdin := rest\<rparr>)
         | Ctrl_C # rest \<Rightarrow> (Raises keyboard_interrupt, w1\<lparr>stdin := rest\<rparr>))"

text \<open>\<^verbatim>\<open>except KeyboardInterrupt: sys.excepthook = lambda *a: None; raise\<close>\<close>

definition on_keyboard_interrupt :: "'a res \<times> 'd world \<Rightarrow> 'a res \<times> 'd world" where
  "on_keyboard_interrupt rw =
     (case fst rw of
        Raises (Raised KeyboardInterrupt_class s b) \<Rightarrow>
          (fst rw, log Set_excepthook ((snd rw)\<lparr>excepthook_silenced := True\<rparr>))
      | _ \<Rightarrow> rw)"

definition run_job :: "'d dbctx \<Rightarrow> string \<Rightarrow> adata \<Rightarrow> 'd world \<Rightarrow> status option res \<times> 'd world" where
  "run_job dbctx which kw w =
     (let data = kw
      in case run dbctx ''fts_index'' which data w of
           (Raises (Raised c s b), w1) \<Rightarrow>
             if is_Exception c then
               (if b then (Raises (SystemExit (Exit_message s)), w1)
                else (Raises (Raised c s b), w1))
             else (Raises (Raised c s b), w1)
         | rw \<Rightarrow> rw)"

definition to_spec :: "builtins \<Rightarrow> string \<Rightarrow> item res" where
  "to_spec B x =
     (let parts = split1 CHR '':'' x
      in case py_int B (fst parts) of
           None \<Rightarrow> Raises (Raised ValueError_class ''invalid literal for int() with base 10'' False)
         | Some book_id \<Rightarrow>
             (case snd parts of
                None \<Rightarrow> Returns (book_id, [])
              | Some p1 \<Rightarrow> Returns (book_id, map (py_upper B) (split CHR '','' p1))))"

text \<open>\<^verbatim>\<open>tuple(map(to_spec, items))\<close>: the first item that raises ends the conversion.\<close>

fun map_to_spec :: "builtins \<Rightarrow> string list \<Rightarrow> item list res" where
  "map_to_spec B [] = Returns []"
| "map_to_spec B (x # xs) =
     (case to_spec B x of
        Returns sp \<Rightarrow>
          (case map_to_spec B xs of Returns sps \<Rightarrow> Returns (sp # sps) | Raises e \<Rightarrow> Raises e
           | Blocks \<Rightarrow> Blocks)
      | Raises e \<Rightarrow> Raises e
      | Blocks \<Rightarrow> Blocks)"

text \<open>\<^verbatim>\<open>s['enabled']\<close> and the other subscripts of the job's result: \<open>None\<close> is not
  subscriptable.\<close>

definition files_indexed :: "status option \<Rightarrow> 'd world \<Rightarrow> unit res \<times> 'd world" where
  "files_indexed s w =
     (case s of
        None \<Rightarrow> (Raises (Raised TypeError_class ''NoneType object is not subscriptable'' False), w)
      | Some d \<Rightarrow> (Returns (), log (Print (Files_indexed (total' d - left d) (total' d))) w))"

definition confirm_prompt :: "string \<Rightarrow> string" where
  "confirm_prompt word =
     ''Type '' @ [CHR 0x22] @ word @ [CHR 0x22] @ '' to proceed, anything else to abort'' @ '': ''"

text \<open>Lines 212-223: the part of \<open>main\<close> after the action has been carried out.\<close>

definition wait_and_finish ::
  "'d db_api \<Rightarrow> 'd dbctx \<Rightarrow> opts \<Rightarrow> sched_step list \<Rightarrow> 'd world \<Rightarrow> int res \<times> 'd world" where
  "wait_and_finish D dbctx opts sch w =
     (if wait_for_completion opts then
        (let w1 = log (Print (Msg ''Waiting for FTS indexing to complete, press Ctrl-C to abort...'')) w
         in if is_remote dbctx then
              (Raises (Raised NotImplementedError_class
                         ''TODO: Implement waiting for completion via polling'' False), w1)
            else
              (let (r, q, w2) = local_wait_for_completion D (indexing_speed opts) sch w1
               in case on_keyboard_interrupt (r, w2) of
                    (Returns u, w3) \<Rightarrow> (Returns 0, log (Print (Msg ''All books indexed!'')) w3)
                  | (Raises e, w3) \<Rightarrow> (Raises e, w3)
                  | (Blocks, w3) \<Rightarrow> (Blocks, w3)))
      else (Returns 0, w))"

definition main ::
  "'d db_api \<Rightarrow> builtins \<Rightarrow> 'd dbctx \<Rightarrow> opts \<Rightarrow> string list \<Rightarrow> sched_step list \<Rightarrow> 'd world
     \<Rightarrow> int res \<times> 'd world" where
  "main D B dbctx opts args sch w =
     (case args of
        [] \<Rightarrow>
          (Raises (SystemExit (Exit_message ''Error: You must specify the indexing action'')),
           log (Print Help) w)
      | action # items \<Rightarrow>
          if action = ''status'' then
            (case run_job dbctx ''status'' None w of
               (Returns s, w1) \<Rightarrow>
                 (case s of
                    None \<Rightarrow>
                      (Raises (Raised TypeError_class ''NoneType object is not subscriptable'' False), w1)
                  | Some d \<Rightarrow>
                      if enabled d then
                        (case files_indexed s (log (Print (Msg ''FTS Indexing is enabled'')) w1) of
                           (Returns u, w2) \<Rightarrow> wait_and_finish D dbctx opts sch w2
                         | (Raises e, w2) \<Rightarrow> (Raises e, w2)
                         | (Blocks, w2) \<Rightarrow> (Blocks, w2))
                      else
                        (Raises (SystemExit (Exit_code 2)),
                         log (Print (Msg ''FTS Indexing is disabled'')) w1))
             | (Raises e, w1) \<Rightarrow> (Raises e, w1)
             | (Blocks, w1) \<Rightarrow> (Blocks, w1))
          else if action = ''enable'' then
            (case run_job dbctx ''enable'' None w of
               (Returns s, w1) \<Rightarrow>
                 (case files_indexed s (log (Print (Msg ''FTS indexing has been enabled'')) w1) of
                    (Returns u, w2) \<Rightarrow> wait_and_finish D dbctx opts sch w2
                  | (Raises e, w2) \<Rightarrow> (Raises e, w2)
                  | (Blocks, w2) \<Rightarrow> (Blocks, w2))
             | (Raises e, w1) \<Rightarrow> (Raises e, w1)
             | (Blocks, w1) \<Rightarrow> (Blocks, w1))
          else if action = ''reindex'' then
            (let (go, w0) =
                   (if items = [] then
                      (case on_keyboard_interrupt
                              (input (confirm_prompt ''reindex'')
                                 (log (Print (Msg ''Re-indexing the entire library can take a long time. Are you sure?'')) w)) of
                         (Returns q, w') \<Rightarrow>
                           (if strip (CHR 0x22) q = ''reindex'' then Returns True else Returns False, w')
                       | (Raises e, w') \<Rightarrow> (Raises e, w')
                       | (Blocks, w') \<Rightarrow> (Blocks, w'))
                    else (Returns True, w))
             in case go of
                  Raises e \<Rightarrow> (Raises e, w0)
                | Blocks \<Rightarrow> (Blocks, w0)
                | Returns False \<Rightarrow> (Returns 0, w0)
                | Returns True \<Rightarrow>
                    (case map_to_spec B items of
                       Raises e \<Rightarrow> (Raises e, w0)
                     | Blocks \<Rightarrow> (Blocks, w0)
                     | Returns specs \<Rightarrow>
                         (case run_job dbctx ''reindex'' (Some specs) w0 of
                            (Returns s, w1) \<Rightarrow>
                              (case files_indexed s w1 of
                                 (Returns u, w2) \<Rightarrow> wait_and_finish D dbctx opts sch w2
                               | (Raises e, w2) \<Rightarrow> (Raises e, w2)
                               | (Blocks, w2) \<Rightarrow> (Blocks, w2))
                          | (Raises e, w1) \<Rightarrow> (Raises e, w1)
                          | (Blocks, w1) \<Rightarrow> (Blocks, w1))))
          else if action = ''disable'' then
            (case on_keyboard_interrupt
                    (input (confirm_prompt ''disable'')
                       (log (Print (Msg ''Disabling indexing will mean that all books will have to be re-checked when re-enabling indexing. Are you sure?'')) w)) of
               (Returns q, w1) \<Rightarrow>
                 if q = ''disable'' \<or> q = [CHR 0x22] @ ''disable'' @ [CHR 0x22] then
                   (case run_job dbctx ''disable'' None w1 of
                      (Returns s, w2) \<Rightarrow> (Returns 0, log (Print (Msg ''FTS indexing has been disabled'')) w2)
                    | (Raises e, w2) \<Rightarrow> (Raises e, w2)
                    | (Blocks, w2) \<Rightarrow> (Blocks, w2))
                 else (Returns 0, w1)
             | (Raises e, w1) \<Rightarrow> (Raises e, w1)
             | (Blocks, w1) \<Rightarrow> (Blocks, w1))
          else
            (Raises (SystemExit (Exit_message (action @ '' is not a known action''))),
             log (Print Help) w))"

section \<open>Process start, and example collaborators\<close>

definition init_world :: "'d \<Rightarrow> 'd world" where
  "init_world d = \<lparr>db = d, cache = None, objs = Map.empty, next_ref = 0,
                   trace = [], stdin = [], excepthook_silenced = False\<rparr>"

text \<open>A small database for evaluating examples: the enabled flag and the progress pair,
  with \<^verbatim>\<open>enable_fts\<close> setting the flag.\<close>

type_synonym demo_db = "bool \<times> (int \<times> int)"

definition demo_api :: "demo_db db_api" where
  "demo_api = \<lparr>is_fts_enabled = fst, fts_indexing_progress = snd,
     enable_fts = (\<lambda>b d. (b, snd d)), reindex_fts = (\<lambda>d. d),
     reindex_fts_book = (\<lambda>i fs d. d), set_fts_speed = (\<lambda>s d. d)\<rparr>"

section \<open>Observations on states and traces\<close>

text \<open>The shared progress state: the object the memoised constructor has stored.\<close>

definition shared_progress :: "'d world \<Rightarrow> IndexingProgress option" where
  "shared_progress w = (case cache w of None \<Rightarrow> None | Some r \<Rightarrow> objs w r)"

text \<open>A stored tracker reference points to an object of the store.\<close>

definition cache_ok :: "'d world \<Rightarrow> bool" where
  "cache_ok w = (case cache w of None \<Rightarrow> True | Some r \<Rightarrow> objs w r \<noteq> None)"

fun update_of :: "call \<Rightarrow> (int \<times> int) list" where
  "update_of (Ip_update r l t) = [(l, t)]"
| "update_of c = []"

fun get_of :: "call \<Rightarrow> (int \<times> int) list" where
  "get_of (Q_get l t) = [(l, t)]"
| "get_of c = []"

definition updates_of :: "call list \<Rightarrow> (int \<times> int) list" where
  "updates_of tr = concat (map update_of tr)"

definition gets_of :: "call list \<Rightarrow> (int \<times> int) list" where
  "gets_of tr = concat (map get_of tr)"

text \<open>The progress pairs a schedule delivers to the listener, in delivery order.\<close>

fun delivered_by :: "sched_step \<Rightarrow> (int \<times> int) list" where
  "delivered_by (Notify et lib d) = (if et = indexing_progress_changed then [d] else [])"
| "delivered_by s = []"

definition progress_data :: "sched_step list \<Rightarrow> (int \<times> int) list" where
  "progress_data sch = concat (map delivered_by sch)"

text \<open>The progress pair the waiter reads at line 122, after the optional speed call.\<close>

definition starting_progress :: "'d db_api \<Rightarrow> string \<Rightarrow> 'd world \<Rightarrow> int \<times> int" where
  "starting_progress D speed w =
     fts_indexing_progress D
       (if speed \<noteq> [] then set_fts_speed D (speed = ''slow'') (db w) else db w)"

text \<open>
  Calls of the four module-level tracker functions made by several threads. A thread that
  has started a call is at one of these points: about to look the stored tracker up
  (\<open>Calling\<close>), past a look-up that found nothing (\<open>Missed\<close>), past the body with the
  tracker it has built (\<open>Built\<close>), holding the tracker \<^verbatim>\<open>ip\<close> the look-up or the body gave
  it (\<open>Holding\<close>), or done (\<open>Finished\<close>, with the tracker it used). A schedule names, step
  by step, the thread that runs next.
\<close>

datatype ip_call = Call_indexing_progress | Call_update int int | Call_reset | Call_time_left

fun run_ip_call :: "ip_call \<Rightarrow> 'd world \<Rightarrow> 'd world" where
  "run_ip_call Call_indexing_progress w = snd (indexing_progress w)"
| "run_ip_call (Call_update l t) w = update_indexing_progress l t w"
| "run_ip_call Call_reset w = reset_indexing_progress w"
| "run_ip_call Call_time_left w = indexing_progress_time_left w"

fun locked_block :: "ip_call \<Rightarrow> ref \<Rightarrow> 'd world \<Rightarrow> 'd world" where
  "locked_block Call_indexing_progress ip w = w"
| "locked_block (Call_update l t) ip w = locked_update ip l t w"
| "locked_block Call_reset ip w = locked_reset ip w"
| "locked_block Call_time_left ip w = locked_time_left ip w"

datatype pc = Calling ip_call | Missed ip_call | Built ip_call ref | Holding ip_call ref
  | Finished ref

fun thread_step :: "pc \<Rightarrow> 'd world \<Rightarrow> pc \<times> 'd world" where
  "thread_step (Calling c) w =
     (case cache w of Some r \<Rightarrow> (Holding c r, w) | None \<Rightarrow> (Missed c, w))"
| "thread_step (Missed c) w =
     (let (r, w1) = indexing_progress_body w in (Built c r, w1))"
| "thread_step (Built c r) w = (Holding c r, cache_store r w)"
| "thread_step (Holding c r) w = (Finished r, locked_block c r w)"
| "thread_step (Finished r) w = (Finished r, w)"

fun run_threads :: "nat list \<Rightarrow> pc list \<times> 'd world \<Rightarrow> pc list \<times> 'd world" where
  "run_threads [] s = s"
| "run_threads (i # sch) s =
     (if i < length (fst s) then
        (let pw = thread_step (fst s ! i) (snd s)
         in run_threads sch ((fst s)[i := fst pw], snd pw))
      else run_threads sch s)"

text \<open>The text \<^verbatim>\<open>f1,f2,...\<close> of a list of format names.\<close>

fun join :: "char \<Rightarrow> string list \<Rightarrow> string" where
  "join c [] = []"
| "join c [f] = f"
| "join c (f # g # fs) = f @ c # join c (g # fs)"

section \<open>Basic facts about the state operations\<close>

lemma log_simps [simp]:
  "db (log c w) = db w"
  "trace (log c w) = trace w @ [c]"
  "cache (log c w) = cache w"
  "objs (log c w) = objs w"
  "next_ref (log c w) = next_ref w"
  "stdin (log c w) = stdin w"
  "excepthook_silenced (log c w) = excepthook_silenced w"
  by (simp_all add: log_def)

lemma lock_of_log [simp]: "lock_of (log c w) r = lock_of w r"
  by (simp add: lock_of_def)

lemma modify_obj_simps [simp]:
  "db (modify_obj r f w) = db w"
  "trace (modify_obj r f w) = trace w"
  "cache (modify_obj r f w) = cache w"
  "next_ref (modify_obj r f w) = next_ref w"
  by (simp_all add: modify_obj_def split: option.splits)

text \<open>The functions written out: what a call does when no other call overlaps it.\<close>

lemma indexing_progress_unfold:
  "indexing_progress w =
     (case cache w of
        Some r \<Rightarrow> (r, w)
      | None \<Rightarrow>
          (let r = next_ref w; k = Suc (next_ref w)
           in (r, log (Construct r k)
                    (w\<lparr>objs := (objs w)(r \<mapsto> IndexingProgress_init k),
                       next_ref := Suc (Suc (next_ref w)),
                       cache := Some r\<rparr>))))"
  by (simp add: indexing_progress_def indexing_progress_body_def cache_store_def Let_def log_def
      split: option.splits)

lemma update_indexing_progress_unfold:
  "update_indexing_progress l t w =
     (let (ip, w1) = indexing_progress w;
          w2 = log (Acquire (lock_of w1 ip)) w1;
          w3 = log (Ip_update ip l t) (modify_obj ip (ip_update l t) w2)
      in log (Release (lock_of w3 ip)) w3)"
  by (simp add: update_indexing_progress_def locked_update_def Let_def case_prod_beta)

lemma reset_indexing_progress_unfold:
  "reset_indexing_progress w =
     (let (ip, w1) = indexing_progress w;
          w2 = log (Acquire (lock_of w1 ip)) w1;
          w3 = log (Ip_reset ip) (modify_obj ip ip_reset w2)
      in log (Release (lock_of w3 ip)) w3)"
  by (simp add: reset_indexing_progress_def locked_reset_def Let_def case_prod_beta)

lemma indexing_progress_time_left_unfold:
  "indexing_progress_time_left w =
     (let (ip, w1) = indexing_progress w;
          w2 = log (Acquire (lock_of w1 ip)) w1;
          w3 = log (Ip_time_left ip) w2
      in log (Release (lock_of w3 ip)) w3)"
  by (simp add: indexing_progress_time_left_def locked_time_left_def Let_def case_prod_beta)

lemma proj_append [simp]:
  "updates_of (a @ b) = updates_of a @ updates_of b"
  "gets_of (a @ b) = gets_of a @ gets_of b"
  by (simp_all add: updates_of_def gets_of_def)

lemma proj_list [simp]:
  "updates_of [] = []"
  "gets_of [] = []"
  "updates_of (c # cs) = update_of c @ updates_of cs"
  "gets_of (c # cs) = get_of c @ gets_of cs"
  by (simp_all add: updates_of_def gets_of_def)

lemma indexing_progress_frame [simp]:
  "db (snd (indexing_progress w)) = db w"
  "stdin (snd (indexing_progress w)) = stdin w"
  "updates_of (trace (snd (indexing_progress w))) = updates_of (trace w)"
  "gets_of (trace (snd (indexing_progress w))) = gets_of (trace w)"
  by (simp_all add: indexing_progress_unfold Let_def split: option.splits)

lemma update_indexing_progress_frame [simp]:
  "db (update_indexing_progress l t w) = db w"
  "updates_of (trace (update_indexing_progress l t w)) = updates_of (trace w) @ [(l, t)]"
  "gets_of (trace (update_indexing_progress l t w)) = gets_of (trace w)"
  by (simp_all add: update_indexing_progress_unfold Let_def case_prod_beta)

lemma time_left_frame [simp]:
  "db (indexing_progress_time_left w) = db w"
  "updates_of (trace (indexing_progress_time_left w)) = updates_of (trace w)"
  "gets_of (trace (indexing_progress_time_left w)) = gets_of (trace w)"
  by (simp_all add: indexing_progress_time_left_unfold Let_def case_prod_beta)

lemma show_progress_frame [simp]:
  "db (show_progress l t w) = db w"
  "updates_of (trace (show_progress l t w)) = updates_of (trace w)"
  "gets_of (trace (show_progress l t w)) = gets_of (trace w)"
  by (simp_all add: show_progress_def)

lemma listen_frame [simp]:
  "gets_of (trace (snd (listen et lib d (q, w)))) = gets_of (trace w)"
  by (simp_all add: listen_def)


text \<open>\<open>cache_ok\<close> holds when the process starts and is kept by the tracker functions.\<close>

lemma cache_ok_init: "cache_ok (init_world d)"
  by (simp add: cache_ok_def init_world_def)

lemma cache_ok_log [simp]: "cache_ok (log c w) = cache_ok w"
  by (simp add: cache_ok_def split: option.splits)

lemma cache_ok_indexing_progress: "cache_ok w \<Longrightarrow> cache_ok (snd (indexing_progress w))"
  by (simp add: cache_ok_def indexing_progress_unfold Let_def split: option.splits)

lemma cache_ok_modify_obj: "cache_ok w \<Longrightarrow> cache_ok (modify_obj r f w)"
  by (auto simp add: cache_ok_def modify_obj_def split: option.splits)

lemma cache_ok_tracker_calls:
  "cache_ok w \<Longrightarrow> cache_ok (update_indexing_progress l t w)"
  "cache_ok w \<Longrightarrow> cache_ok (reset_indexing_progress w)"
  "cache_ok w \<Longrightarrow> cache_ok (indexing_progress_time_left w)"
  by (simp_all add: update_indexing_progress_unfold reset_indexing_progress_unfold
      indexing_progress_time_left_unfold Let_def case_prod_beta cache_ok_modify_obj
      cache_ok_indexing_progress)

section \<open>The memoised tracker under overlapping calls\<close>

lemma indexing_progress_cache [simp]:
  "cache (snd (indexing_progress w)) = Some (fst (indexing_progress w))"
  by (simp add: indexing_progress_unfold Let_def split: option.splits)

lemma indexing_progress_cached:
  "cache w = Some r \<Longrightarrow> indexing_progress w = (r, w)"
  by (simp add: indexing_progress_unfold)

lemma lock_of_modify_obj:
  "(\<And>p. lock (f p) = lock p) \<Longrightarrow> lock_of (modify_obj r f w) r' = lock_of w r'"
  by (simp add: lock_of_def modify_obj_def split: option.splits)

lemma lock_of_update [simp]: "lock_of (modify_obj r (ip_update l t) w) r' = lock_of w r'"
  by (rule lock_of_modify_obj) (simp add: ip_update_def)

lemma lock_of_reset [simp]: "lock_of (modify_obj r ip_reset w) r' = lock_of w r'"
  by (rule lock_of_modify_obj) (simp add: ip_reset_def)

text \<open>Calls made one after the other. The first call constructs the tracker with its lock
  and stores it; every call that finds a stored tracker \<open>r\<close> gets \<open>r\<close>, constructs nothing,
  and runs its method on \<open>r\<close> between acquiring and releasing the lock attached to \<open>r\<close>.\<close>

lemma first_call_constructs:
  assumes "cache w = None"
  shows "fst (indexing_progress w) = next_ref w"
    and "trace (snd (indexing_progress w)) = trace w @ [Construct (next_ref w) (Suc (next_ref w))]"
    and "objs (snd (indexing_progress w)) (next_ref w) = Some (IndexingProgress_init (Suc (next_ref w)))"
    and "cache (snd (indexing_progress w)) = Some (next_ref w)"
  using assms by (simp_all add: indexing_progress_unfold Let_def)

lemma stored_tracker_is_used:
  assumes "cache w = Some r" and "objs w r = Some p"
  shows "indexing_progress w = (r, w)"
    and "trace (update_indexing_progress l t w) =
           trace w @ [Acquire (lock p), Ip_update r l t, Release (lock p)]"
    and "objs (update_indexing_progress l t w) = (objs w)(r \<mapsto> ip_update l t p)"
    and "trace (reset_indexing_progress w) = trace w @ [Acquire (lock p), Ip_reset r, Release (lock p)]"
    and "objs (reset_indexing_progress w) = (objs w)(r \<mapsto> ip_reset p)"
    and "trace (indexing_progress_time_left w) =
           trace w @ [Acquire (lock p), Ip_time_left r, Release (lock p)]"
    and "objs (indexing_progress_time_left w) = objs w"
    and "cache (update_indexing_progress l t w) = Some r"
    and "cache (reset_indexing_progress w) = Some r"
    and "cache (indexing_progress_time_left w) = Some r"
  using assms
  by (simp_all add: indexing_progress_cached update_indexing_progress_unfold
      reset_indexing_progress_unfold indexing_progress_time_left_unfold lock_of_def
      modify_obj_def ip_update_def ip_reset_def)

text \<open>A thread that runs its call without another thread in between does what the
  function does.\<close>

lemma run_threads_alone:
  "run_threads [0, 0, 0, 0] ([Calling c], w) =
     ([Finished (fst (indexing_progress w))], run_ip_call c w)"
  by (cases c; cases "cache w")
    (simp_all add: indexing_progress_def update_indexing_progress_def
      reset_indexing_progress_def indexing_progress_time_left_def indexing_progress_body_def
      cache_store_def Let_def)

text \<open>
  Claim C7. The claim holds for calls made one after the other and fails when two first
  calls overlap, as the code allows: the listener thread's first
  \<^verbatim>\<open>update_indexing_progress\<close> (line 113) and the main thread's first
  \<^verbatim>\<open>indexing_progress_time_left\<close> (line 117) can both look the stored tracker up before
  either has stored one. At process start, with the schedule in which thread 0 (the update
  of \<open>(50, 100)\<close>) and thread 1 (the time-left query) both miss, then thread 0 builds,
  stores and updates, then thread 1 builds, stores and queries: two trackers are
  constructed, \<open>0\<close> with lock \<open>1\<close> and \<open>2\<close> with lock \<open>3\<close>; the update goes to tracker
  \<open>0\<close> under lock \<open>1\<close>, the query reads tracker \<open>2\<close> under lock \<open>3\<close>, and tracker \<open>2\<close>
  (the one the query read) still holds the unset sentinel.
\<close>

theorem overlapping_first_calls_build_two_trackers:
  "fst (run_threads [0, 1, 0, 0, 0, 1, 1, 1]
          ([Calling (Call_update 50 100), Calling Call_time_left],
           init_world ((True, 60, 100)::demo_db))) = [Finished 0, Finished 2] \<and>
   trace (snd (run_threads [0, 1, 0, 0, 0, 1, 1, 1]
          ([Calling (Call_update 50 100), Calling Call_time_left],
           init_world ((True, 60, 100)::demo_db)))) =
     [Construct 0 1, Acquire 1, Ip_update 0 50 100, Release 1,
      Construct 2 3, Acquire 3, Ip_time_left 2, Release 3] \<and>
   objs (snd (run_threads [0, 1, 0, 0, 0, 1, 1, 1]
          ([Calling (Call_update 50 100), Calling Call_time_left],
           init_world ((True, 60, 100)::demo_db)))) 0 =
     Some \<lparr>ip_left = 50, ip_total = 100, rate_samples = [50], lock = 1\<rparr> \<and>
   objs (snd (run_threads [0, 1, 0, 0, 0, 1, 1, 1]
          ([Calling (Call_update 50 100), Calling Call_time_left],
           init_world ((True, 60, 100)::demo_db)))) 2 =
     Some \<lparr>ip_left = -1, ip_total = -1, rate_samples = [], lock = 3\<rparr>"
  by (simp add: init_world_def indexing_progress_body_def cache_store_def locked_update_def
      locked_time_left_def Let_def lock_of_def modify_obj_def ip_update_def
      IndexingProgress_init_def log_def)

section \<open>The action dispatcher\<close>

text \<open>
  Claim C5. For every database handle, the action \<^verbatim>\<open>status\<close> returns the dictionary
  \<open>{enabled: False, left: -1, total: -1}\<close> when \<^verbatim>\<open>db.is_fts_enabled()\<close> is false, and
  \<open>{enabled: True, left: l, total: t}\<close> with \<open>(l, t)\<close> the value of
  \<^verbatim>\<open>db.fts_indexing_progress()\<close> when it is true.
\<close>

theorem implementation_status:
  "(\<not> is_fts_enabled D (db w) \<longrightarrow>
      fst (implementation D ''status'' adata w) =
        Returns (Some \<lparr>enabled = False, left = -1, total' = -1\<rparr>)) \<and>
   (is_fts_enabled D (db w) \<longrightarrow>
      fst (implementation D ''status'' adata w) =
        Returns (Some \<lparr>enabled = True, left = fst (fts_indexing_progress D (db w)),
                       total' = snd (fts_indexing_progress D (db w))\<rparr>))"
  by (simp add: implementation_def db_is_fts_enabled_def progress_status_def
      db_fts_indexing_progress_def)

theorem implementation_status_witness:
  "\<not> is_fts_enabled demo_api (db (init_world ((False, 3, 10)::demo_db))) \<and>
   fst (implementation demo_api ''status'' None (init_world ((False, 3, 10)::demo_db))) =
     Returns (Some \<lparr>enabled = False, left = -1, total' = -1\<rparr>) \<and>
   is_fts_enabled demo_api (db (init_world ((True, 3, 10)::demo_db))) \<and>
   fst (implementation demo_api ''status'' None (init_world ((True, 3, 10)::demo_db))) =
     Returns (Some \<lparr>enabled = True, left = 3, total' = 10\<rparr>)"
  using implementation_status [of demo_api "init_world ((False, 3, 10)::demo_db)" None]
    implementation_status [of demo_api "init_world ((True, 3, 10)::demo_db)" None]
  by (simp add: demo_api_def init_world_def)

text \<open>
  Claim C6. The action \<^verbatim>\<open>disable\<close> returns nothing. When indexing is already disabled
  its only call is the query \<^verbatim>\<open>db.is_fts_enabled()\<close>: no reset, no change of the
  database. When indexing is enabled, the shared progress state is reset under its lock
  (constructing the tracker first if this is its first use) and only then
  \<^verbatim>\<open>db.enable_fts(enabled=False)\<close> is called; afterwards the shared state is the unset
  sentinel \<open>(-1, -1)\<close> with no rate samples.
\<close>

theorem implementation_disable:
  "fst (implementation D ''disable'' adata w) = Returns None \<and>
   (\<not> is_fts_enabled D (db w) \<longrightarrow>
      snd (implementation D ''disable'' adata w) = log Db_is_fts_enabled w) \<and>
   (is_fts_enabled D (db w) \<and> cache_ok w \<longrightarrow>
      (\<exists>r k pre p. (pre = [] \<or> pre = [Construct r k]) \<and>
         trace (snd (implementation D ''disable'' adata w)) =
           trace w @ Db_is_fts_enabled # pre @ [Acquire k, Ip_reset r, Release k, Db_enable_fts False] \<and>
         shared_progress (snd (implementation D ''disable'' adata w)) = Some p \<and>
         ip_left p = -1 \<and> ip_total p = -1 \<and> rate_samples p = [] \<and>
         db (snd (implementation D ''disable'' adata w)) = enable_fts D False (db w)))"
proof (cases "cache w")
  case None
  then show ?thesis
    by (simp add: implementation_def db_is_fts_enabled_def db_enable_fts_def
        reset_indexing_progress_unfold indexing_progress_unfold Let_def shared_progress_def
        modify_obj_def lock_of_def ip_reset_def IndexingProgress_init_def)
next
  case (Some r)
  then show ?thesis
    by (auto simp add: implementation_def db_is_fts_enabled_def db_enable_fts_def cache_ok_def
        reset_indexing_progress_unfold indexing_progress_unfold Let_def shared_progress_def
        modify_obj_def lock_of_def ip_reset_def IndexingProgress_init_def)
qed

theorem implementation_disable_witness:
  "\<not> is_fts_enabled demo_api (db (init_world ((False, 3, 10)::demo_db))) \<and>
   snd (implementation demo_api ''disable'' None (init_world ((False, 3, 10)::demo_db))) =
     log Db_is_fts_enabled (init_world ((False, 3, 10)::demo_db)) \<and>
   is_fts_enabled demo_api (db (init_world ((True, 3, 10)::demo_db))) \<and>
   cache_ok (init_world ((True, 3, 10)::demo_db)) \<and>
   fst (implementation demo_api ''disable'' None (init_world ((True, 3, 10)::demo_db))) = Returns None \<and>
   (\<exists>r k pre p. (pre = [] \<or> pre = [Construct r k]) \<and>
      trace (snd (implementation demo_api ''disable'' None (init_world ((True, 3, 10)::demo_db)))) =
        trace (init_world ((True, 3, 10)::demo_db)) @
          Db_is_fts_enabled # pre @ [Acquire k, Ip_reset r, Release k, Db_enable_fts False] \<and>
      shared_progress (snd (implementation demo_api ''disable'' None (init_world ((True, 3, 10)::demo_db)))) = Some p \<and>
      ip_left p = -1 \<and> ip_total p = -1 \<and> rate_samples p = [] \<and>
      db (snd (implementation demo_api ''disable'' None (init_world ((True, 3, 10)::demo_db)))) =
        enable_fts demo_api False (db (init_world ((True, 3, 10)::demo_db))))"
proof -
  have off: "\<not> is_fts_enabled demo_api (db (init_world ((False, 3, 10)::demo_db)))"
    by (simp add: demo_api_def init_world_def)
  have on: "is_fts_enabled demo_api (db (init_world ((True, 3, 10)::demo_db))) \<and>
            cache_ok (init_world ((True, 3, 10)::demo_db))"
    by (simp add: demo_api_def init_world_def cache_ok_def)
  from off on implementation_disable [of demo_api None "init_world ((False, 3, 10)::demo_db)"]
    implementation_disable [of demo_api None "init_world ((True, 3, 10)::demo_db)"]
  show ?thesis by blast
qed

text \<open>
  Claim C9. For every action string other than \<^verbatim>\<open>status\<close>, \<^verbatim>\<open>enable\<close>, \<^verbatim>\<open>disable\<close> and
  \<^verbatim>\<open>reindex\<close>, \<open>implementation\<close> falls through every branch: it returns \<open>None\<close>, raises
  nothing and leaves the whole process state, the database and the call trace included,
  as it was.
\<close>

theorem implementation_unknown_action:
  "action \<notin> {''status'', ''enable'', ''disable'', ''reindex''} \<Longrightarrow>
   implementation D action adata w = (Returns None, w)"
  by (simp add: implementation_def)

theorem implementation_unknown_action_witness:
  "''optimize'' \<notin> {''status'', ''enable'', ''disable'', ''reindex''} \<and>
   implementation demo_api ''optimize'' None (init_world ((True, 3, 10)::demo_db)) =
     (Returns None, init_world ((True, 3, 10)::demo_db))"
  using implementation_unknown_action
    [of "''optimize''" demo_api None "init_world ((True, 3, 10)::demo_db)"]
  by simp

text \<open>
  Claim C4. The action \<^verbatim>\<open>reindex\<close> on a handle whose indexing is disabled raises the
  user-facing failure: an \<^verbatim>\<open>Exception\<close> with the clean message and the attribute
  \<^verbatim>\<open>suppress_traceback\<close> set, and through \<open>run_job\<close> it becomes \<^verbatim>\<open>SystemExit\<close> with
  that message. For any job runner, \<open>run_job\<close> turns a raised exception into
  \<^verbatim>\<open>SystemExit(str(e))\<close> exactly when it is an instance of \<^verbatim>\<open>Exception\<close> (what the
  handler \<^verbatim>\<open>except Exception\<close> catches) carrying a true \<^verbatim>\<open>suppress_traceback\<close>; every
  other exception is re-raised as it is, and every other outcome is passed on.
\<close>

theorem reindex_disabled_clean_exit:
  "(\<not> is_fts_enabled D (db w) \<longrightarrow>
      implementation D ''reindex'' adata w =
        (Raises (Raised Exception_class ''Full text indexing is not enabled on this library'' True),
         log Db_is_fts_enabled w) \<and>
      run_job (local_dbctx D) ''reindex'' kw w =
        (Raises (SystemExit (Exit_message ''Full text indexing is not enabled on this library'')),
         log Db_is_fts_enabled w)) \<and>
   (run dbctx ''fts_index'' which kw w = (Raises (Raised c s b), w1) \<longrightarrow>
      run_job dbctx which kw w =
        (if is_Exception c \<and> b then (Raises (SystemExit (Exit_message s)), w1)
         else (Raises (Raised c s b), w1))) \<and>
   ((\<forall>c s b. fst (run dbctx ''fts_index'' which kw w) \<noteq> Raises (Raised c s b)) \<longrightarrow>
      run_job dbctx which kw w = run dbctx ''fts_index'' which kw w)"
  by (auto simp add: implementation_def db_is_fts_enabled_def not_enabled_error_def run_job_def
      local_dbctx_def split: prod.splits res.splits exc.splits)

theorem reindex_disabled_clean_exit_witness:
  "\<not> is_fts_enabled demo_api (db (init_world ((False, 3, 10)::demo_db))) \<and>
   run (local_dbctx demo_api) ''fts_index'' ''reindex'' None (init_world ((False, 3, 10)::demo_db)) =
     (Raises (Raised Exception_class ''Full text indexing is not enabled on this library'' True),
      log Db_is_fts_enabled (init_world ((False, 3, 10)::demo_db))) \<and>
   run_job (local_dbctx demo_api) ''reindex'' None (init_world ((False, 3, 10)::demo_db)) =
     (Raises (SystemExit (Exit_message ''Full text indexing is not enabled on this library'')),
      log Db_is_fts_enabled (init_world ((False, 3, 10)::demo_db))) \<and>
   (\<forall>c s b. fst (run (local_dbctx demo_api) ''fts_index'' ''status'' None
                   (init_world ((False, 3, 10)::demo_db))) \<noteq> Raises (Raised c s b)) \<and>
   run_job (local_dbctx demo_api) ''status'' None (init_world ((False, 3, 10)::demo_db)) =
     run (local_dbctx demo_api) ''fts_index'' ''status'' None (init_world ((False, 3, 10)::demo_db))"
proof -
  let ?w = "init_world ((False, 3, 10)::demo_db)"
  have off: "\<not> is_fts_enabled demo_api (db ?w)"
    by (simp add: demo_api_def init_world_def)
  have st: "\<forall>c s b. fst (run (local_dbctx demo_api) ''fts_index'' ''status'' None ?w)
              \<noteq> Raises (Raised c s b)"
    by (simp add: local_dbctx_def implementation_def db_is_fts_enabled_def demo_api_def
        init_world_def)
  have rn: "run (local_dbctx demo_api) ''fts_index'' ''reindex'' None ?w =
     (Raises (Raised Exception_class ''Full text indexing is not enabled on this library'' True),
      log Db_is_fts_enabled ?w)"
    by (simp add: local_dbctx_def implementation_def db_is_fts_enabled_def demo_api_def
        init_world_def not_enabled_error_def)
  from off st rn
    reindex_disabled_clean_exit [of demo_api ?w None None "local_dbctx demo_api" "''reindex''"
      Exception_class "''Full text indexing is not enabled on this library''" True
      "log Db_is_fts_enabled ?w"]
    reindex_disabled_clean_exit [of demo_api ?w None None "local_dbctx demo_api" "''status''"]
  show ?thesis by simp
qed

section \<open>The completion waiter\<close>

lemma progress_data_simps [simp]:
  "progress_data [] = []"
  "progress_data (x # sch) = delivered_by x @ progress_data sch"
  "progress_data (a @ b) = progress_data a @ progress_data b"
  by (simp_all add: progress_data_def)

lemma progress_data_Gets [simp]: "progress_data (replicate n Get) = []"
  by (induction n) simp_all






text \<open>
  Claim C2. When the progress read at entry reports a remaining count below 1, the waiter
  returns at once, whatever the schedule: no step of the schedule is needed (the result is
  the one for the empty schedule, so the main thread never blocks), nothing is dequeued,
  and the only calls made are \<^verbatim>\<open>add_listener\<close>, the optional \<^verbatim>\<open>set_fts_speed\<close> and
  \<^verbatim>\<open>fts_indexing_progress\<close>.
\<close>

theorem waiter_already_complete:
  "fst (starting_progress D speed w) < 1 \<Longrightarrow>
   fst (local_wait_for_completion D speed sch w) = Returns () \<and>
   local_wait_for_completion D speed sch w = local_wait_for_completion D speed [] w \<and>
   gets_of (trace (snd (snd (local_wait_for_completion D speed sch w)))) = gets_of (trace w) \<and>
   trace (snd (snd (local_wait_for_completion D speed sch w))) =
     trace w @ Db_add_listener (next_ref w) #
       (if speed \<noteq> [] then [Db_set_fts_speed (speed = ''slow'')] else []) @
       [Db_fts_indexing_progress]"
  by (cases "speed = []")
    (simp_all add: local_wait_for_completion_def starting_progress_def Let_def
      db_add_listener_def db_set_fts_speed_def db_fts_indexing_progress_def)

theorem waiter_already_complete_witness:
  "fst (starting_progress demo_api ''slow'' (init_world ((True, 0, 10)::demo_db))) < 1 \<and>
   fst (local_wait_for_completion demo_api ''slow'' [Get] (init_world ((True, 0, 10)::demo_db))) =
     Returns () \<and>
   trace (snd (snd (local_wait_for_completion demo_api ''slow'' [Get]
                      (init_world ((True, 0, 10)::demo_db))))) =
     [Db_add_listener 0, Db_set_fts_speed True, Db_fts_indexing_progress]"
proof -
  have h: "fst (starting_progress demo_api ''slow'' (init_world ((True, 0, 10)::demo_db))) < 1"
    by (simp add: starting_progress_def demo_api_def init_world_def)
  from waiter_already_complete [OF h, of "[Get]"]
  have "fst (local_wait_for_completion demo_api ''slow'' [Get] (init_world ((True, 0, 10)::demo_db))) =
     Returns ()"
    and "trace (snd (snd (local_wait_for_completion demo_api ''slow'' [Get]
                      (init_world ((True, 0, 10)::demo_db))))) =
     trace (init_world ((True, 0, 10)::demo_db)) @
       Db_add_listener (next_ref (init_world ((True, 0, 10)::demo_db))) #
       (if ''slow'' \<noteq> [] then [Db_set_fts_speed (''slow'' = ''slow'')] else []) @
       [Db_fts_indexing_progress]"
    by blast+
  with h show ?thesis
    by (simp add: init_world_def)
qed



section \<open>The command line\<close>

lemma split1_absent: "c \<notin> set s \<Longrightarrow> split1 c s = (s, None)"
  by (simp add: split1_def)

lemma split1_first: "c \<notin> set n \<Longrightarrow> split1 c (n @ c # rest) = (n, Some rest)"
  by (induction n) (auto simp add: split1_def)

lemma split_no_sep: "c \<notin> set f \<Longrightarrow> split c f = [f]"
  by (induction f) (auto split: list.splits)

lemma split_append_sep: "c \<notin> set f \<Longrightarrow> split c (f @ c # s) = f # split c s"
  by (induction f) (auto split: list.splits)

lemma split_join:
  "fs \<noteq> [] \<Longrightarrow> \<forall>f\<in>set fs. c \<notin> set f \<Longrightarrow> split c (join c fs) = fs"
  by (induction c fs rule: join.induct) (simp_all add: split_no_sep split_append_sep)

text \<open>
  Claim C10. For an item \<^verbatim>\<open>N\<close> or \<^verbatim>\<open>N:f1,f2,...\<close> in which \<^verbatim>\<open>N\<close>, the text before the first
  colon, parses as the integer \<open>k\<close>, \<open>to_spec\<close> returns the tuple \<open>(k,)\<close>, respectively
  \<open>(k, F1, F2, ...)\<close> with every format name in upper case. The item is split at the first
  colon only: whatever follows it, further colons included, is split at the commas.
\<close>

theorem to_spec_parses:
  assumes "py_int B n = Some k" and "CHR '':'' \<notin> set n"
  shows "to_spec B n = Returns (k, []) \<and>
         to_spec B (n @ CHR '':'' # rest) = Returns (k, map (py_upper B) (split CHR '','' rest)) \<and>
         (fs \<noteq> [] \<and> (\<forall>f\<in>set fs. CHR '','' \<notin> set f) \<longrightarrow>
            to_spec B (n @ CHR '':'' # join CHR '','' fs) = Returns (k, map (py_upper B) fs))"
  using assms by (simp add: to_spec_def split1_absent split1_first split_join)

theorem to_spec_parses_witness:
  "py_int ascii_builtins ''12'' = Some 12 \<and> CHR '':'' \<notin> set ''12'' \<and>
   [''epub'', ''pdf''] \<noteq> [] \<and> CHR '','' \<notin> set ''epub'' \<and> CHR '','' \<notin> set ''pdf'' \<and>
   to_spec ascii_builtins ''12'' = Returns (12, []) \<and>
   to_spec ascii_builtins ''12:a:b,c'' = Returns (12, [''A:B'', ''C'']) \<and>
   to_spec ascii_builtins ''12:epub,pdf'' = Returns (12, [''EPUB'', ''PDF''])"
proof -
  have p: "py_int ascii_builtins ''12'' = Some 12"
    by (simp add: ascii_builtins_def ascii_int_def digit_val_def)
  have c: "CHR '':'' \<notin> set ''12''" by simp
  have f: "[''epub'', ''pdf''] \<noteq> [] \<and> (\<forall>f\<in>set [''epub'', ''pdf'']. CHR '','' \<notin> set f)" by simp
  from to_spec_parses [OF p c, of "''a:b,c''" "[''epub'', ''pdf'']"] p c f
  show ?thesis by (simp add: ascii_builtins_def ascii_upper_char_def)
qed

text \<open>
  Claim C8. For every action other than the four known ones, \<open>main\<close> prints the help and
  ends with \<^verbatim>\<open>SystemExit\<close> carrying the message \<^verbatim>\<open><action> is not a known action\<close>: the
  message begins with the action given, the exit status is not zero, and neither the job
  runner nor the database is called.
\<close>

theorem main_unknown_action:
  "action \<notin> {''status'', ''enable'', ''disable'', ''reindex''} \<Longrightarrow>
   main D B dbctx opts (action # rest) sch w =
     (Raises (SystemExit (Exit_message (action @ '' is not a known action''))), log (Print Help) w) \<and>
   exit_status (Exit_message (action @ '' is not a known action'')) \<noteq> 0 \<and>
   prefix action (action @ '' is not a known action'')"
  by (simp add: main_def)

theorem main_unknown_action_witness:
  "''optimize'' \<notin> {''status'', ''enable'', ''disable'', ''reindex''} \<and>
   main demo_api ascii_builtins (local_dbctx demo_api)
     \<lparr>wait_for_completion = True, indexing_speed = []\<rparr> [''optimize'', ''7'']
     [] (init_world ((True, 3, 10)::demo_db)) =
     (Raises (SystemExit (Exit_message ''optimize is not a known action'')),
      log (Print Help) (init_world ((True, 3, 10)::demo_db)))"
  using main_unknown_action [of "''optimize''" demo_api ascii_builtins "local_dbctx demo_api"
      "\<lparr>wait_for_completion = True, indexing_speed = []\<rparr>" "[''7'']" "[]"
      "init_world ((True, 3, 10)::demo_db)"]
  by simp

end
